theory Spec2Isabelle
  imports Complex_Main "HOL-Library.Word"
begin

unbundle bit_operations_syntax

section \<open>Strings and bytes\<close>

text \<open>
  A JavaScript string is a sequence of 16-bit code units; a \<^verbatim>\<open>Uint8Array\<close> is a sequence
  of bytes. String literals of the source are written with \<open>str\<close>.
\<close>

type_synonym byte = "8 word"
type_synonym code_unit = "16 word"
type_synonym jsstring = "code_unit list"

definition str :: "string \<Rightarrow> jsstring" where
  "str s = map of_char s"

text \<open>
  \<^verbatim>\<open>new TextEncoder().encode(s)\<close>: the string is read as Unicode scalar values (a surrogate
  pair is one scalar value, a lone surrogate becomes U+FFFD) and each is written in UTF-8.
\<close>

definition is_high :: "code_unit \<Rightarrow> bool" where
  "is_high c = (0xD800 \<le> c \<and> c \<le> 0xDBFF)"

definition is_low :: "code_unit \<Rightarrow> bool" where
  "is_low c = (0xDC00 \<le> c \<and> c \<le> 0xDFFF)"

fun scalars :: "jsstring \<Rightarrow> nat list" where
  "scalars [] = []"
| "scalars [c] = [if is_high c \<or> is_low c then 0xFFFD else unat c]"
| "scalars (c # d # cs) =
     (if is_high c \<and> is_low d
      then (0x10000 + (unat c - 0xD800) * 0x400 + (unat d - 0xDC00)) # scalars cs
      else (if is_high c \<or> is_low c then 0xFFFD else unat c) # scalars (d # cs))"

definition utf8 :: "nat \<Rightarrow> byte list" where
  "utf8 n =
     (if n < 0x80 then [of_nat n]
      else if n < 0x800 then [of_nat (0xC0 + n div 0x40), of_nat (0x80 + n mod 0x40)]
      else if n < 0x10000 then
        [of_nat (0xE0 + n div 0x1000), of_nat (0x80 + n div 0x40 mod 0x40),
         of_nat (0x80 + n mod 0x40)]
      else
        [of_nat (0xF0 + n div 0x40000), of_nat (0x80 + n div 0x1000 mod 0x40),
         of_nat (0x80 + n div 0x40 mod 0x40), of_nat (0x80 + n mod 0x40)])"

definition encode :: "jsstring \<Rightarrow> byte list" where
  "encode s = concat (map utf8 (scalars s))"

section \<open>The SOCKS5 packets\<close>

text \<open>
  A proxy endpoint as \<^verbatim>\<open>socks5.connect\<close> reads it: \<^verbatim>\<open>proxy.host\<close>, \<^verbatim>\<open>proxy.port\<close>,
  \<^verbatim>\<open>proxy.user\<close>, \<^verbatim>\<open>proxy.pass\<close>.
\<close>

record proxy =
  host :: jsstring
  port :: int
  user :: jsstring
  pass :: jsstring

text \<open>
  Every element of the array given to \<^verbatim>\<open>new Uint8Array([...])\<close> is reduced modulo 256,
  so a length is stored with \<open>of_nat\<close> into a byte, which wraps.
\<close>

definition greeting :: "byte list" where
  "greeting = [0x05, 0x01, 0x02]"

definition authPacket :: "proxy \<Rightarrow> byte list" where
  "authPacket p =
     (let userBytes = encode (user p); passBytes = encode (pass p)
      in [0x01, of_nat (length userBytes)] @ userBytes @ [of_nat (length passBytes)] @ passBytes)"

text \<open>
  \<^verbatim>\<open>[(targetPort >> 8) & 0xff, targetPort & 0xff]\<close>: the bit operations of \<open>int\<close> are those
  of two's complement, as JavaScript's are on the 32-bit value of an integer.
\<close>

definition portBytes :: "int \<Rightarrow> byte list" where
  "portBytes targetPort =
     [word_of_int (drop_bit 8 targetPort AND 0xff), word_of_int (targetPort AND 0xff)]"

definition connectPacket :: "jsstring \<Rightarrow> int \<Rightarrow> byte list" where
  "connectPacket targetHost targetPort =
     (let hostBytes = encode targetHost
      in [0x05, 0x01, 0x00, 0x03, of_nat (length hostBytes)] @ hostBytes @ portBytes targetPort)"

section \<open>The socket and the handshake\<close>

text \<open>
  The upstream proxy is a script: one entry per round of the handshake, a round being
  \<^verbatim>\<open>await writer.write(packet)\<close> followed by \<^verbatim>\<open>(await reader.read()).value\<close>. In a round
  the write may reject, the read may reject, the read may report the end of the stream
  (its value is \<^verbatim>\<open>undefined\<close>), or the read delivers one chunk of bytes, of whatever length
  the transport hands over. When the script is exhausted the awaited promise never settles.
\<close>

datatype round = WriteRejects | ReadRejects | ReadDone | ReadChunk "byte list"

datatype event =
    Connect jsstring int
  | Write "byte list"
  | Read "byte list option"
  | Close

text \<open>
  The errors \<^verbatim>\<open>socks5.connect\<close> throws. The two copies of the function differ only in the
  wording of the messages; the connect failure carries what the message interpolates:
  \<^verbatim>\<open>response ? response[1] : 'N/A'\<close>.
\<close>

datatype reply_code = NotAvailable | Code "byte option"

datatype error =
    TypeError
  | IOError
  | NegotiationFailed
  | AuthFailed
  | ConnectFailed reply_code

datatype 'a outcome = Returned 'a | Thrown error | Pending

text \<open>\<^verbatim>\<open>xs[i]\<close> on an array or a \<^verbatim>\<open>Uint8Array\<close>: \<^verbatim>\<open>undefined\<close> beyond its length.\<close>

definition item :: "'a list \<Rightarrow> nat \<Rightarrow> 'a option" where
  "item xs i = (if i < length xs then Some (xs ! i) else None)"

text \<open>\<^verbatim>\<open>!response || response[0] !== b0 || response[1] !== b1\<close>\<close>

definition rejected :: "byte list option \<Rightarrow> byte \<Rightarrow> byte \<Rightarrow> bool" where
  "rejected response b0 b1 =
     (case response of
        None \<Rightarrow> True
      | Some r \<Rightarrow> item r 0 \<noteq> Some b0 \<or> item r 1 \<noteq> Some b1)"

text \<open>One round: the write, then the read; the rest of the script is handed on.\<close>

definition exchange ::
  "byte list \<Rightarrow> round list \<Rightarrow> (byte list option \<times> round list) outcome \<times> event list" where
  "exchange packet script =
     (case script of
        [] \<Rightarrow> (Pending, [Write packet])
      | WriteRejects # rest \<Rightarrow> (Thrown IOError, [Write packet])
      | ReadRejects # rest \<Rightarrow> (Thrown IOError, [Write packet])
      | ReadDone # rest \<Rightarrow> (Returned (None, rest), [Write packet, Read None])
      | ReadChunk c # rest \<Rightarrow> (Returned (Some c, rest), [Write packet, Read (Some c)]))"

text \<open>
  The three steps of \<^verbatim>\<open>socks5.connect\<close>, last first. Each takes the events so far and
  returns the outcome with all events; the established socket is what is left of the
  script, that is, what later reads of the stream will deliver.
\<close>

definition connection_request ::
  "jsstring \<Rightarrow> int \<Rightarrow> round list \<Rightarrow> event list \<Rightarrow> round list outcome \<times> event list" where
  "connection_request targetHost targetPort script evs =
     (case exchange (connectPacket targetHost targetPort) script of
        (Pending, ws) \<Rightarrow> (Pending, evs @ ws)
      | (Thrown e, ws) \<Rightarrow> (Thrown e, evs @ ws)
      | (Returned (response, rest), ws) \<Rightarrow>
          if rejected response 0x05 0x00
          then (Thrown (ConnectFailed
                  (case response of None \<Rightarrow> NotAvailable | Some r \<Rightarrow> Code (item r 1))),
                evs @ ws @ [Close])
          else (Returned rest, evs @ ws))"

definition authentication ::
  "proxy \<Rightarrow> jsstring \<Rightarrow> int \<Rightarrow> round list \<Rightarrow> event list \<Rightarrow> round list outcome \<times> event list" where
  "authentication p targetHost targetPort script evs =
     (case exchange (authPacket p) script of
        (Pending, ws) \<Rightarrow> (Pending, evs @ ws)
      | (Thrown e, ws) \<Rightarrow> (Thrown e, evs @ ws)
      | (Returned (response, rest), ws) \<Rightarrow>
          if rejected response 0x01 0x00
          then (Thrown AuthFailed, evs @ ws @ [Close])
          else connection_request targetHost targetPort rest (evs @ ws))"

text \<open>
  \<^verbatim>\<open>socks5.connect(proxy, targetHost, targetPort)\<close> of index.js and \<^verbatim>\<open>socks5Connect\<close> of
  the other copy. The proxy may be \<^verbatim>\<open>undefined\<close> (\<open>None\<close>): then \<^verbatim>\<open>proxy.host\<close> throws
  before \<^verbatim>\<open>connect\<close> is called.
\<close>

definition socks5_connect ::
  "proxy option \<Rightarrow> jsstring \<Rightarrow> int \<Rightarrow> round list \<Rightarrow> round list outcome \<times> event list" where
  "socks5_connect chosen targetHost targetPort script =
     (case chosen of
        None \<Rightarrow> (Thrown TypeError, [])
      | Some p \<Rightarrow>
          (case exchange greeting script of
             (Pending, ws) \<Rightarrow> (Pending, Connect (host p) (port p) # ws)
           | (Thrown e, ws) \<Rightarrow> (Thrown e, Connect (host p) (port p) # ws)
           | (Returned (response, rest), ws) \<Rightarrow>
               if rejected response 0x05 0x02
               then (Thrown NegotiationFailed, Connect (host p) (port p) # ws @ [Close])
               else authentication p targetHost targetPort rest
                      (Connect (host p) (port p) # ws)))"

text \<open>The second copy of the function, under its own name.\<close>

abbreviation socks5Connect ::
  "proxy option \<Rightarrow> jsstring \<Rightarrow> int \<Rightarrow> round list \<Rightarrow> round list outcome \<times> event list" where
  "socks5Connect \<equiv> socks5_connect"

section \<open>The request handler\<close>

subsection \<open>Platform functions\<close>

text \<open>
  \<^verbatim>\<open>atob\<close>: the forgiving base64 decoding of the HTML standard. ASCII whitespace is
  removed; when the length is a multiple of 4, one or two final \<^verbatim>\<open>=\<close> are removed; a length
  of 1 modulo 4 or a character outside the alphabet is an error (\<open>None\<close>: \<^verbatim>\<open>atob\<close>
  throws); every decoded byte is one code unit of the result.
\<close>

definition is_ascii_whitespace :: "code_unit \<Rightarrow> bool" where
  "is_ascii_whitespace c = (c = 0x09 \<or> c = 0x0A \<or> c = 0x0C \<or> c = 0x0D \<or> c = 0x20)"

definition base64_value :: "code_unit \<Rightarrow> nat option" where
  "base64_value c =
     (if 0x41 \<le> c \<and> c \<le> 0x5A then Some (unat c - 0x41)
      else if 0x61 \<le> c \<and> c \<le> 0x7A then Some (unat c - 0x61 + 26)
      else if 0x30 \<le> c \<and> c \<le> 0x39 then Some (unat c - 0x30 + 52)
      else if c = 0x2B then Some 62
      else if c = 0x2F then Some 63
      else None)"

definition strip_padding :: "jsstring \<Rightarrow> jsstring" where
  "strip_padding d =
     (if length d mod 4 = 0 then
        (case rev d of
           a # b # r \<Rightarrow> if a = 0x3D \<and> b = 0x3D then rev r
                        else if a = 0x3D then rev (b # r) else d
         | _ \<Rightarrow> d)
      else d)"

fun base64_bytes :: "nat list \<Rightarrow> nat list" where
  "base64_bytes (a # b # c # d # rest) =
     (let n = ((a * 64 + b) * 64 + c) * 64 + d
      in n div 65536 # n div 256 mod 256 # n mod 256 # base64_bytes rest)"
| "base64_bytes [a, b, c] = (let n = (a * 64 + b) * 64 + c in [n div 1024, n div 4 mod 256])"
| "base64_bytes [a, b] = [(a * 64 + b) div 16]"
| "base64_bytes [a] = []"
| "base64_bytes [] = []"

definition atob :: "jsstring \<Rightarrow> jsstring option" where
  "atob data =
     (let d = strip_padding (filter (\<lambda>c. \<not> is_ascii_whitespace c) data)
      in if length d mod 4 = 1 then None
         else (case those (map base64_value d) of
                 None \<Rightarrow> None
               | Some vs \<Rightarrow> Some (map of_nat (base64_bytes vs))))"

text \<open>
  \<^verbatim>\<open>parseInt(string)\<close> with no radix: leading white space is skipped, a sign is read, a
  prefix \<^verbatim>\<open>0x\<close> selects radix 16, and the longest prefix of digits is the value; with no
  digit the result is \<^verbatim>\<open>NaN\<close> (\<open>None\<close>). The value is the exact integer, which is what
  JavaScript computes below \<open>2 ^ 53\<close>; the port of a URL has at most five digits.
\<close>

definition is_white_space :: "code_unit \<Rightarrow> bool" where
  "is_white_space c =
     (c \<in> {0x09, 0x0A, 0x0B, 0x0C, 0x0D, 0x20, 0xA0, 0x1680, 0x2028, 0x2029, 0x202F,
            0x205F, 0x3000, 0xFEFF}
      \<or> (0x2000 \<le> c \<and> c \<le> 0x200A))"

definition digit_value :: "code_unit \<Rightarrow> nat option" where
  "digit_value c =
     (if 0x30 \<le> c \<and> c \<le> 0x39 then Some (unat c - 0x30)
      else if 0x61 \<le> c \<and> c \<le> 0x7A then Some (unat c - 0x61 + 10)
      else if 0x41 \<le> c \<and> c \<le> 0x5A then Some (unat c - 0x41 + 10)
      else None)"

fun digits_prefix :: "nat \<Rightarrow> jsstring \<Rightarrow> nat list" where
  "digits_prefix R [] = []"
| "digits_prefix R (c # cs) =
     (case digit_value c of
        None \<Rightarrow> []
      | Some d \<Rightarrow> if d < R then d # digits_prefix R cs else [])"

definition parseInt :: "jsstring \<Rightarrow> int option" where
  "parseInt string =
     (let S = dropWhile is_white_space string;
          negative = (take 1 S = [0x2D]);
          S1 = (if take 1 S = [0x2B] \<or> take 1 S = [0x2D] then drop 1 S else S);
          hex = (take 2 S1 = [0x30, 0x78] \<or> take 2 S1 = [0x30, 0x58]);
          R = (if hex then 16 else 10);
          Z = digits_prefix R (if hex then drop 2 S1 else S1);
          n = int (foldl (\<lambda>a d. a * R + d) 0 Z)
      in if Z = [] then None else Some (if negative then - n else n))"

text \<open>\<^verbatim>\<open>parseInt(s) || d\<close>: \<^verbatim>\<open>NaN\<close> and 0 are falsy.\<close>

definition or_default :: "int option \<Rightarrow> int \<Rightarrow> int" where
  "or_default v d = (case v of None \<Rightarrow> d | Some n \<Rightarrow> if n = 0 then d else n)"

text \<open>\<^verbatim>\<open>s.startsWith(t)\<close> and \<^verbatim>\<open>s.split(sep)\<close> for a separator of one code unit.\<close>

definition startsWith :: "jsstring \<Rightarrow> jsstring \<Rightarrow> bool" where
  "startsWith s t = (take (length t) s = t)"

fun split :: "jsstring \<Rightarrow> code_unit \<Rightarrow> jsstring list" where
  "split [] sep = [[]]"
| "split (c # cs) sep =
     (if c = sep then [] # split cs sep
      else (case split cs sep of
              [] \<Rightarrow> [[c]]
            | seg # segs \<Rightarrow> (c # seg) # segs))"

subsection \<open>Configuration\<close>

text \<open>
  What \<^verbatim>\<open>JSON.parse\<close> returns. An object keeps its members in the order of the text; of
  two members with one name the later one is the property. Numbers are never inspected
  by the handler's credential check.
\<close>

datatype json =
    JNull
  | JBool bool
  | JNum int
  | JStr jsstring
  | JArr "json list"
  | JObj "(jsstring \<times> json) list"

text \<open>
  The environment after \<^verbatim>\<open>JSON.parse\<close>: \<open>None\<close> when \<^verbatim>\<open>JSON.parse\<close> throws (the binding
  is missing or is no JSON text). The users are any JSON value. The proxies, when they
  parse, are an array of endpoint objects with the four fields \<^verbatim>\<open>socks5.connect\<close> reads.
\<close>

record env =
  USERS_JSON :: "json option"
  PROXIES_JSON :: "proxy list option"

text \<open>
  The request as the handler reads it: \<^verbatim>\<open>request.method\<close>,
  \<^verbatim>\<open>request.headers.get('Proxy-Authorization')\<close> (\<open>None\<close> for \<^verbatim>\<open>null\<close>), the \<^verbatim>\<open>hostname\<close> and
  \<^verbatim>\<open>port\<close> of \<^verbatim>\<open>new URL(request.url)\<close> (the port is the empty string when the URL gives
  none), and whether \<^verbatim>\<open>request.body\<close> is a stream rather than \<^verbatim>\<open>null\<close>.
\<close>

record request =
  "method" :: jsstring
  authHeader :: "jsstring option"
  hostname :: jsstring
  url_port :: jsstring
  has_body :: bool

text \<open>
  A response: the status, the status text, the headers the handler sets, and the body,
  which is a text, the message of a caught error, or the readable side of the tunnel.
\<close>

datatype body = Text string | Message error | Readable

record response =
  status :: nat
  statusText :: string
  headers :: "(string \<times> string) list"
  body :: body

text \<open>
  What the handler does: it responds, or it returns the promise of the platform's
  \<^verbatim>\<open>fetch\<close> over the established socket, or it never settles.
\<close>

datatype result = Responds response | Delegates "round list" | Hangs

subsection \<open>Step 1: authentication\<close>

text \<open>
  \<^verbatim>\<open>entry.user\<close> and \<^verbatim>\<open>entry.pass\<close>: reading a property of \<^verbatim>\<open>null\<close> throws; on an object
  it is the member of that name or \<^verbatim>\<open>undefined\<close> (\<open>None\<close>); on any other value these two
  names are \<^verbatim>\<open>undefined\<close>.
\<close>

fun get_prop :: "json \<Rightarrow> jsstring \<Rightarrow> error + json option" where
  "get_prop JNull k = Inl TypeError"
| "get_prop (JObj members) k = Inr (map_of (rev members) k)"
| "get_prop v k = Inr None"

text \<open>\<^verbatim>\<open>v === s\<close> for \<open>s\<close> a string or \<^verbatim>\<open>undefined\<close>.\<close>

definition strict_eq :: "json option \<Rightarrow> jsstring option \<Rightarrow> bool" where
  "strict_eq v s = (case s of None \<Rightarrow> v = None | Some t \<Rightarrow> v = Some (JStr t))"

text \<open>\<^verbatim>\<open>entry => entry.user === user && entry.pass === pass\<close>\<close>

definition entry_matches :: "json \<Rightarrow> jsstring option \<Rightarrow> jsstring option \<Rightarrow> error + bool" where
  "entry_matches entry u p =
     (case get_prop entry (str ''user'') of
        Inl e \<Rightarrow> Inl e
      | Inr v \<Rightarrow>
          if strict_eq v u
          then (case get_prop entry (str ''pass'') of
                  Inl e \<Rightarrow> Inl e
                | Inr w \<Rightarrow> Inr (strict_eq w p))
          else Inr False)"

fun some :: "json list \<Rightarrow> jsstring option \<Rightarrow> jsstring option \<Rightarrow> error + bool" where
  "some [] u p = Inr False"
| "some (entry # entries) u p =
     (case entry_matches entry u p of
        Inl e \<Rightarrow> Inl e
      | Inr True \<Rightarrow> Inr True
      | Inr False \<Rightarrow> some entries u p)"

text \<open>\<^verbatim>\<open>users.some(...)\<close>: only an array has the method; on anything else the call throws.\<close>

definition users_some ::
  "json \<Rightarrow> jsstring option \<Rightarrow> jsstring option \<Rightarrow> error + bool" where
  "users_some users u p = (case users of JArr entries \<Rightarrow> some entries u p | _ \<Rightarrow> Inl TypeError)"

text \<open>
  \<^verbatim>\<open>const [user, pass] = decodedCreds.split(':')\<close>: the first two elements of the array,
  \<^verbatim>\<open>undefined\<close> (\<open>None\<close>) where the array is shorter.
\<close>

definition credentials :: "jsstring \<Rightarrow> jsstring option \<times> jsstring option" where
  "credentials decodedCreds =
     (let segments = split decodedCreds 0x3A in (item segments 0, item segments 1))"

definition challenge :: response where
  "challenge =
     \<lparr>status = 407, statusText = [],
      headers = [(''Proxy-Authenticate'', ''Basic realm=\"Secure Proxy Gateway\"'')],
      body = Text ''Proxy Authentication Required''\<rparr>"

definition invalid_credentials :: response where
  "invalid_credentials =
     \<lparr>status = 407, statusText = [], headers = [], body = Text ''Invalid Credentials''\<rparr>"

text \<open>
  Step 1 of both handlers: \<open>Some\<close> of the response returned early, \<open>None\<close> when the
  request goes on to step 2.
\<close>

definition authenticate :: "request \<Rightarrow> env \<Rightarrow> response option" where
  "authenticate request e =
     (case authHeader request of
        None \<Rightarrow> Some challenge
      | Some h \<Rightarrow>
          if h = [] \<or> \<not> startsWith h (str ''Basic '') then Some challenge
          else (case atob (drop 6 h) of
                  None \<Rightarrow> Some invalid_credentials
                | Some decodedCreds \<Rightarrow>
                    (case USERS_JSON e of
                       None \<Rightarrow> Some invalid_credentials
                     | Some users \<Rightarrow>
                         (case users_some users (fst (credentials decodedCreds))
                                 (snd (credentials decodedCreds)) of
                            Inr True \<Rightarrow> None
                          | _ \<Rightarrow> Some invalid_credentials))))"

subsection \<open>Step 2: choosing a proxy\<close>

definition configuration_error :: response where
  "configuration_error =
     \<lparr>status = 500, statusText = [], headers = [], body = Text ''Proxy configuration error''\<rparr>"

text \<open>
  \<^verbatim>\<open>proxies[Math.floor(Math.random() * proxies.length)]\<close>, with \<open>rnd\<close> the value of
  \<^verbatim>\<open>Math.random()\<close>; \<open>None\<close> is \<^verbatim>\<open>undefined\<close>.
\<close>

definition pick :: "proxy list \<Rightarrow> real \<Rightarrow> proxy option" where
  "pick proxies rnd =
     (let i = \<lfloor>rnd * real (length proxies)\<rfloor>
      in if 0 \<le> i then item proxies (nat i) else None)"

text \<open>index.js: no check of the length.\<close>

definition chooseProxy :: "env \<Rightarrow> real \<Rightarrow> response + proxy option" where
  "chooseProxy e rnd =
     (case PROXIES_JSON e of
        None \<Rightarrow> Inl configuration_error
      | Some proxies \<Rightarrow> Inr (pick proxies rnd))"

text \<open>The other copy: \<^verbatim>\<open>if (!proxies || proxies.length === 0) throw ...\<close>\<close>

definition chooseProxy_v1 :: "env \<Rightarrow> real \<Rightarrow> response + proxy option" where
  "chooseProxy_v1 e rnd =
     (case PROXIES_JSON e of
        None \<Rightarrow> Inl configuration_error
      | Some proxies \<Rightarrow>
          if length proxies = 0 then Inl configuration_error else Inr (pick proxies rnd))"

subsection \<open>Step 3: the tunnel\<close>

definition connection_established :: response where
  "connection_established =
     \<lparr>status = 200, statusText = ''Connection established'', headers = [], body = Readable\<rparr>"

definition bad_gateway :: "error \<Rightarrow> response" where
  "bad_gateway err = \<lparr>status = 502, statusText = [], headers = [], body = Message err\<rparr>"

text \<open>
  Raw tunnel mode, after \<^verbatim>\<open>socks5.connect\<close>: \<^verbatim>\<open>request.body.pipeTo(...)\<close> throws when the
  request has no body, and the \<^verbatim>\<open>catch\<close> answers 502.
\<close>

definition tunnel :: "request \<Rightarrow> round list outcome \<times> event list \<Rightarrow> result \<times> event list" where
  "tunnel request r =
     (case r of
        (Returned socket, evs) \<Rightarrow>
          if has_body request then (Responds connection_established, evs)
          else (Responds (bad_gateway TypeError), evs)
      | (Thrown err, evs) \<Rightarrow> (Responds (bad_gateway err), evs)
      | (Pending, evs) \<Rightarrow> (Hangs, evs))"

text \<open>Substituted transport: \<^verbatim>\<open>return fetch(request, {connect: ...})\<close> over the socket.\<close>

definition transport :: "round list outcome \<times> event list \<Rightarrow> result \<times> event list" where
  "transport r =
     (case r of
        (Returned socket, evs) \<Rightarrow> (Delegates socket, evs)
      | (Thrown err, evs) \<Rightarrow> (Responds (bad_gateway err), evs)
      | (Pending, evs) \<Rightarrow> (Hangs, evs))"

text \<open>The handler of index.js.\<close>

definition fetch :: "request \<Rightarrow> env \<Rightarrow> real \<Rightarrow> round list \<Rightarrow> result \<times> event list" where
  "fetch request e rnd script =
     (case authenticate request e of
        Some r \<Rightarrow> (Responds r, [])
      | None \<Rightarrow>
          (case chooseProxy e rnd of
             Inl r \<Rightarrow> (Responds r, [])
           | Inr chosenProxy \<Rightarrow>
               if method request = str ''CONNECT''
               then tunnel request
                      (socks5_connect chosenProxy (hostname request)
                         (or_default (parseInt (url_port request)) 443) script)
               else transport
                      (socks5_connect chosenProxy (hostname request)
                         (or_default (parseInt (url_port request)) 80) script)))"

text \<open>The handler of the other copy: every request is tunnelled.\<close>

definition fetch_v1 :: "request \<Rightarrow> env \<Rightarrow> real \<Rightarrow> round list \<Rightarrow> result \<times> event list" where
  "fetch_v1 request e rnd script =
     (case authenticate request e of
        Some r \<Rightarrow> (Responds r, [])
      | None \<Rightarrow>
          (case chooseProxy_v1 e rnd of
             Inl r \<Rightarrow> (Responds r, [])
           | Inr chosenProxy \<Rightarrow>
               tunnel request
                 (socks5Connect chosenProxy (hostname request)
                    (or_default (parseInt (url_port request)) 443) script)))"

section \<open>Observations on a run\<close>

text \<open>The packets written and the values read, in order, in a list of events.\<close>

definition sent :: "event list \<Rightarrow> byte list list" where
  "sent evs = concat (map (\<lambda>ev. case ev of Write b \<Rightarrow> [b] | _ \<Rightarrow> []) evs)"

definition received :: "event list \<Rightarrow> byte list option list" where
  "received evs = concat (map (\<lambda>ev. case ev of Read v \<Rightarrow> [v] | _ \<Rightarrow> []) evs)"

text \<open>The round in which the read yields the value \<open>v\<close> (\<open>None\<close>: the stream has ended).\<close>

definition delivering :: "byte list option \<Rightarrow> round" where
  "delivering v = (case v of None \<Rightarrow> ReadDone | Some c \<Rightarrow> ReadChunk c)"

section \<open>The credential store\<close>


section \<open>An example configuration\<close>

text \<open>
  One proxy, the credential store \<^verbatim>\<open>[{"user": "a", "pass": "b"}]\<close>, and a request for
  \<^verbatim>\<open>example.com\<close> with no port whose header is \<^verbatim>\<open>Basic\<close> followed by the given base64 text.
\<close>

definition example_proxy :: proxy where
  "example_proxy = \<lparr>host = str ''proxy'', port = 1080, user = str ''u'', pass = str ''pw''\<rparr>"

definition example_users :: json where
  "example_users = JArr [JObj [(str ''user'', JStr (str ''a'')), (str ''pass'', JStr (str ''b''))]]"

definition example_env :: "proxy list \<Rightarrow> env" where
  "example_env proxies = \<lparr>USERS_JSON = Some example_users, PROXIES_JSON = Some proxies\<rparr>"

definition example_request :: "string \<Rightarrow> string \<Rightarrow> request" where
  "example_request m encodedCreds =
     \<lparr>method = str m, authHeader = Some (str ''Basic '' @ str encodedCreds),
      hostname = str ''example.com'', url_port = [], has_body = True\<rparr>"

section \<open>The handshake\<close>

lemma rejected_None: "rejected None a b"
  by (simp add: rejected_def)

lemma rejected_Some: "rejected (Some c) a b \<longleftrightarrow> \<not> (2 \<le> length c \<and> c ! 0 = a \<and> c ! 1 = b)"
  by (auto simp: rejected_def item_def)

lemma exchange_Nil: "exchange pkt [] = (Pending, [Write pkt])"
  by (simp add: exchange_def)

lemma exchange_Cons:
  "exchange pkt (WriteRejects # rest) = (Thrown IOError, [Write pkt])"
  "exchange pkt (ReadRejects # rest) = (Thrown IOError, [Write pkt])"
  "exchange pkt (ReadDone # rest) = (Returned (None, rest), [Write pkt, Read None])"
  "exchange pkt (ReadChunk c # rest) = (Returned (Some c, rest), [Write pkt, Read (Some c)])"
  by (simp_all add: exchange_def)

lemma connection_request_Returned:
  "connection_request th tp script evs = (Returned sock, evs') \<longleftrightarrow>
     (\<exists>c. script = ReadChunk c # sock \<and> \<not> rejected (Some c) 0x05 0x00 \<and>
          evs' = evs @ [Write (connectPacket th tp), Read (Some c)])"
  by (cases script; cases "hd script")
     (auto simp: connection_request_def exchange_Nil exchange_Cons rejected_None)

lemma authentication_Returned:
  "authentication p th tp script evs = (Returned sock, evs') \<longleftrightarrow>
     (\<exists>c rest. script = ReadChunk c # rest \<and> \<not> rejected (Some c) 0x01 0x00 \<and>
          connection_request th tp rest (evs @ [Write (authPacket p), Read (Some c)]) = (Returned sock, evs'))"
  by (cases script; cases "hd script")
     (auto simp: authentication_def exchange_Nil exchange_Cons rejected_None)

lemma socks5_connect_Returned:
  "socks5_connect chosen th tp script = (Returned sock, evs) \<longleftrightarrow>
     (\<exists>p c rest. chosen = Some p \<and> script = ReadChunk c # rest \<and> \<not> rejected (Some c) 0x05 0x02 \<and>
          authentication p th tp rest [Connect (host p) (port p), Write greeting, Read (Some c)] = (Returned sock, evs))"
  by (cases chosen; cases script; cases "hd script")
     (auto simp: socks5_connect_def exchange_Nil exchange_Cons rejected_None)

text \<open>
  Claim C1. \<^verbatim>\<open>socks5.connect\<close> returns the socket exactly when the proxy delivered a chunk
  in each of the three rounds and each chunk passed its check; the events of such a run
  are then the three rounds in their order: greeting written, its reply read, the
  authentication packet written, its reply read, the connect request written, its reply
  read. No round is missing, none is out of place, and a reply that fails its check (see
  the right-hand side) means that no socket is returned.
\<close>

theorem socks5_connect_established_iff:
  "socks5_connect chosen targetHost targetPort script = (Returned socket, evs) \<longleftrightarrow>
     (\<exists>p c1 c2 c3.
        chosen = Some p \<and>
        script = ReadChunk c1 # ReadChunk c2 # ReadChunk c3 # socket \<and>
        (2 \<le> length c1 \<and> c1 ! 0 = 0x05 \<and> c1 ! 1 = 0x02) \<and>
        (2 \<le> length c2 \<and> c2 ! 0 = 0x01 \<and> c2 ! 1 = 0x00) \<and>
        (2 \<le> length c3 \<and> c3 ! 0 = 0x05 \<and> c3 ! 1 = 0x00) \<and>
        evs = [Connect (host p) (port p),
               Write greeting, Read (Some c1),
               Write (authPacket p), Read (Some c2),
               Write (connectPacket targetHost targetPort), Read (Some c3)])"
  unfolding socks5_connect_Returned authentication_Returned connection_request_Returned rejected_Some
  by auto


theorem socks5_connect_established_iff_witness:
  "socks5_connect (Some \<lparr>host = str ''proxy'', port = 1080, user = str ''u'', pass = str ''pw''\<rparr>)
      (str ''example.com'') 443 [ReadChunk [5, 2], ReadChunk [1, 0], ReadChunk [5, 0, 0, 1]]
   = (Returned [],
      [Connect (str ''proxy'') 1080,
       Write greeting, Read (Some [5, 2]),
       Write (authPacket \<lparr>host = str ''proxy'', port = 1080, user = str ''u'', pass = str ''pw''\<rparr>),
       Read (Some [1, 0]),
       Write (connectPacket (str ''example.com'') 443), Read (Some [5, 0, 0, 1])])"
  by (simp add: socks5_connect_established_iff)

lemma str_example:
  "str ''example.com'' = [0x65, 0x78, 0x61, 0x6D, 0x70, 0x6C, 0x65, 0x2E, 0x63, 0x6F, 0x6D]"
  by (simp add: str_def)

lemma encode_example:
  "encode [0x65, 0x78, 0x61, 0x6D, 0x70, 0x6C, 0x65, 0x2E, 0x63, 0x6F, 0x6D] =
     [0x65, 0x78, 0x61, 0x6D, 0x70, 0x6C, 0x65, 0x2E, 0x63, 0x6F, 0x6D]"
  by (simp add: encode_def utf8_def is_high_def is_low_def)

lemma portBytes_443: "portBytes 443 = [0x01, 0xBB]"
  by (simp add: portBytes_def)

lemma socks5_connect_accepted:
  assumes "\<not> rejected (Some c1) 0x05 0x02" and "\<not> rejected (Some c2) 0x01 0x00"
  shows "socks5_connect (Some p) th tp (ReadChunk c1 # ReadChunk c2 # rest) =
           connection_request th tp rest
             [Connect (host p) (port p), Write greeting, Read (Some c1),
              Write (authPacket p), Read (Some c2)]"
  using assms by (simp add: socks5_connect_def authentication_def exchange_Cons)

text \<open>
  Claim C2. For the target host \<^verbatim>\<open>example.com\<close> and the target port 443 the connect request
  is the byte sequence 05 01 00 03 0B 65 78 61 6D 70 6C 65 2E 63 6F 6D 01 BB, and this is
  the third packet \<^verbatim>\<open>socks5.connect\<close> writes when the first two rounds are accepted.
\<close>

theorem connectPacket_example:
  "connectPacket (str ''example.com'') 443 =
     [0x05, 0x01, 0x00, 0x03, 0x0B,
      0x65, 0x78, 0x61, 0x6D, 0x70, 0x6C, 0x65, 0x2E, 0x63, 0x6F, 0x6D, 0x01, 0xBB]
   \<and> sent (snd (socks5_connect (Some p) (str ''example.com'') 443
                  [ReadChunk [0x05, 0x02], ReadChunk [0x01, 0x00], ReadChunk [0x05, 0x00]])) ! 2 =
     [0x05, 0x01, 0x00, 0x03, 0x0B,
      0x65, 0x78, 0x61, 0x6D, 0x70, 0x6C, 0x65, 0x2E, 0x63, 0x6F, 0x6D, 0x01, 0xBB]"
proof -
  have pkt: "connectPacket (str ''example.com'') 443 =
     [0x05, 0x01, 0x00, 0x03, 0x0B,
      0x65, 0x78, 0x61, 0x6D, 0x70, 0x6C, 0x65, 0x2E, 0x63, 0x6F, 0x6D, 0x01, 0xBB]"
    by (simp add: connectPacket_def str_example encode_example portBytes_443)
  have "socks5_connect (Some p) (str ''example.com'') 443
          [ReadChunk [0x05, 0x02], ReadChunk [0x01, 0x00], ReadChunk [0x05, 0x00]] =
        connection_request (str ''example.com'') 443 [ReadChunk [0x05, 0x00]]
          [Connect (host p) (port p), Write greeting, Read (Some [0x05, 0x02]),
           Write (authPacket p), Read (Some [0x01, 0x00])]"
    by (rule socks5_connect_accepted) (simp_all add: rejected_Some)
  then have "sent (snd (socks5_connect (Some p) (str ''example.com'') 443
                  [ReadChunk [0x05, 0x02], ReadChunk [0x01, 0x00], ReadChunk [0x05, 0x00]])) ! 2 =
             connectPacket (str ''example.com'') 443"
    by (simp add: connection_request_def exchange_Cons rejected_Some sent_def)
  with pkt show ?thesis by simp
qed

text \<open>
  Claim C3. When the reply of a round is wrong or absent (the check \<open>rejected\<close> of the
  source holds: no value, fewer than two bytes, or other bytes than expected), at the
  greeting, at the authentication or at the connect request, \<^verbatim>\<open>socks5.connect\<close> throws the
  error of that step, and the last event before the error reaches the caller is the
  closing of the socket; nothing is written after the rejected reply.
\<close>

theorem socks5_connect_closes_on_rejection:
  "(rejected v1 0x05 0x02 \<longrightarrow>
      socks5_connect (Some p) th tp (delivering v1 # rest) =
        (Thrown NegotiationFailed,
         [Connect (host p) (port p), Write greeting, Read v1, Close]))
   \<and> (\<not> rejected (Some c1) 0x05 0x02 \<and> rejected v2 0x01 0x00 \<longrightarrow>
      socks5_connect (Some p) th tp (ReadChunk c1 # delivering v2 # rest) =
        (Thrown AuthFailed,
         [Connect (host p) (port p), Write greeting, Read (Some c1),
          Write (authPacket p), Read v2, Close]))
   \<and> (\<not> rejected (Some c1) 0x05 0x02 \<and> \<not> rejected (Some c2) 0x01 0x00 \<and>
      rejected v3 0x05 0x00 \<longrightarrow>
      socks5_connect (Some p) th tp (ReadChunk c1 # ReadChunk c2 # delivering v3 # rest) =
        (Thrown (ConnectFailed (case v3 of None \<Rightarrow> NotAvailable | Some r \<Rightarrow> Code (item r 1))),
         [Connect (host p) (port p), Write greeting, Read (Some c1),
          Write (authPacket p), Read (Some c2),
          Write (connectPacket th tp), Read v3, Close]))"
  by (cases v1; cases v2; cases v3)
     (simp_all add: socks5_connect_def authentication_def connection_request_def exchange_Cons
        delivering_def)

theorem socks5_connect_closes_on_rejection_witness:
  "rejected (Some [0x05, 0x00]) 0x05 0x02
   \<and> socks5_connect (Some example_proxy) (str ''example.com'') 443 [ReadChunk [0x05, 0x00]] =
       (Thrown NegotiationFailed,
        [Connect (host example_proxy) (port example_proxy), Write greeting,
         Read (Some [0x05, 0x00]), Close])
   \<and> socks5_connect (Some example_proxy) (str ''example.com'') 443
         [ReadChunk [0x05, 0x02], ReadChunk [0x01, 0x01]] =
       (Thrown AuthFailed,
        [Connect (host example_proxy) (port example_proxy), Write greeting,
         Read (Some [0x05, 0x02]), Write (authPacket example_proxy),
         Read (Some [0x01, 0x01]), Close])
   \<and> socks5_connect (Some example_proxy) (str ''example.com'') 443
         [ReadChunk [0x05, 0x02], ReadChunk [0x01, 0x00], ReadChunk [0x05, 0x05]] =
       (Thrown (ConnectFailed (Code (Some 0x05))),
        [Connect (host example_proxy) (port example_proxy), Write greeting,
         Read (Some [0x05, 0x02]), Write (authPacket example_proxy),
         Read (Some [0x01, 0x00]), Write (connectPacket (str ''example.com'') 443),
         Read (Some [0x05, 0x05]), Close])"
  using socks5_connect_closes_on_rejection
          [where ?v1.0 = "Some [0x05, 0x00]" and p = example_proxy
             and th = "str ''example.com''" and tp = 443 and rest = "[]"
             and ?c1.0 = "[0x05, 0x02]" and ?v2.0 = "Some [0x01, 0x01]"
             and ?c2.0 = "[0x01, 0x00]" and ?v3.0 = "Some [0x05, 0x05]"]
  by (simp add: rejected_Some delivering_def item_def)

lemma unat_length_byte: "n \<le> 255 \<Longrightarrow> unat (of_nat n :: byte) = n"
  by (simp add: unat_of_nat take_bit_nat_eq_self)

lemma and_255: "(x::int) AND 0xff = take_bit 8 x"
proof -
  have "(0xff::int) = mask 8" by (simp add: mask_eq_exp_minus_1)
  then show ?thesis by (simp only: take_bit_eq_mask)
qed

lemma byte_of_take_bit: "(word_of_int (take_bit 8 x) :: byte) = word_of_int x"
  by (simp add: word_of_int_eq_iff)

lemma portBytes_div: "portBytes p = [word_of_int (p div 256), word_of_int p]"
  by (simp add: portBytes_def and_255 byte_of_take_bit drop_bit_eq_div)

lemma port_big_endian:
  assumes "0 \<le> p" and "p < 65536"
  shows "uint (word_of_int (p div 256) :: byte) * 256 + uint (word_of_int p :: byte) = p"
proof -
  have "uint (word_of_int (p div 256) :: byte) = p div 256"
    using assms by (simp add: uint_word_of_int take_bit_eq_mod)
  moreover have "uint (word_of_int p :: byte) = p mod 256"
    by (simp add: uint_word_of_int take_bit_eq_mod)
  ultimately show ?thesis by simp
qed

text \<open>
  Claim C4. For a proxy whose user name and password encode to at most 255 bytes each,
  and a server that answers 05 02, then 01 00, then a reply that starts 05 00,
  \<^verbatim>\<open>socks5.connect\<close> returns the socket, and what it has written is exactly three packets:
  the greeting 05 01 02; the authentication packet 01, the length of the user name, the
  user name, the length of the password, the password, each length byte being the true
  length; and the connect request 05 01 00 03, the length of the host, the host, and the
  port as two bytes, high byte first. The length byte of the host is its true length for a
  host of at most 255 bytes, and the two port bytes are the port for a port below 65536.
\<close>

theorem socks5_connect_sends_three_packets:
  assumes "length (encode (user p)) \<le> 255" and "length (encode (pass p)) \<le> 255"
  shows "fst (socks5_connect (Some p) targetHost targetPort
                (ReadChunk [0x05, 0x02] # ReadChunk [0x01, 0x00] #
                 ReadChunk (0x05 # 0x00 # extra) # rest))
           = Returned rest
         \<and> sent (snd (socks5_connect (Some p) targetHost targetPort
                (ReadChunk [0x05, 0x02] # ReadChunk [0x01, 0x00] #
                 ReadChunk (0x05 # 0x00 # extra) # rest)))
           = [[0x05, 0x01, 0x02],
              [0x01, of_nat (length (encode (user p)))] @ encode (user p) @
                [of_nat (length (encode (pass p)))] @ encode (pass p),
              [0x05, 0x01, 0x00, 0x03, of_nat (length (encode targetHost))] @
                encode targetHost @
                [word_of_int (targetPort div 256), word_of_int targetPort]]
         \<and> unat (of_nat (length (encode (user p))) :: byte) = length (encode (user p))
         \<and> unat (of_nat (length (encode (pass p))) :: byte) = length (encode (pass p))
         \<and> (length (encode targetHost) \<le> 255 \<longrightarrow>
              unat (of_nat (length (encode targetHost)) :: byte) = length (encode targetHost))
         \<and> (0 \<le> targetPort \<and> targetPort < 65536 \<longrightarrow>
              uint (word_of_int (targetPort div 256) :: byte) * 256
                + uint (word_of_int targetPort :: byte) = targetPort)"
proof -
  have run: "socks5_connect (Some p) targetHost targetPort
                (ReadChunk [0x05, 0x02] # ReadChunk [0x01, 0x00] #
                 ReadChunk (0x05 # 0x00 # extra) # rest)
             = (Returned rest,
                [Connect (host p) (port p), Write greeting, Read (Some [0x05, 0x02]),
                 Write (authPacket p), Read (Some [0x01, 0x00]),
                 Write (connectPacket targetHost targetPort),
                 Read (Some (0x05 # 0x00 # extra))])"
    by (simp add: socks5_connect_Returned authentication_Returned connection_request_Returned
          rejected_Some)
  have "sent [Connect (host p) (port p), Write greeting, Read (Some [0x05, 0x02]),
                 Write (authPacket p), Read (Some [0x01, 0x00]),
                 Write (connectPacket targetHost targetPort),
                 Read (Some (0x05 # 0x00 # extra))]
        = [greeting, authPacket p, connectPacket targetHost targetPort]"
    by (simp add: sent_def)
  with run show ?thesis
    using assms
    by (simp add: greeting_def authPacket_def connectPacket_def portBytes_div Let_def
          unat_length_byte port_big_endian)
qed

theorem socks5_connect_sends_three_packets_witness:
  "length (encode (str ''u'')) \<le> 255 \<and> length (encode (str ''pw'')) \<le> 255
   \<and> length (encode (str ''example.com'')) \<le> 255 \<and> (0::int) \<le> 443 \<and> (443::int) < 65536
   \<and> fst (socks5_connect
            (Some \<lparr>host = str ''proxy'', port = 1080, user = str ''u'', pass = str ''pw''\<rparr>)
            (str ''example.com'') 443
            [ReadChunk [0x05, 0x02], ReadChunk [0x01, 0x00], ReadChunk [0x05, 0x00, 0x00, 0x01]])
       = Returned []
   \<and> sent (snd (socks5_connect
            (Some \<lparr>host = str ''proxy'', port = 1080, user = str ''u'', pass = str ''pw''\<rparr>)
            (str ''example.com'') 443
            [ReadChunk [0x05, 0x02], ReadChunk [0x01, 0x00], ReadChunk [0x05, 0x00, 0x00, 0x01]]))
       = [[0x05, 0x01, 0x02], [0x01, 0x01, 0x75, 0x02, 0x70, 0x77],
          [0x05, 0x01, 0x00, 0x03, 0x0B,
           0x65, 0x78, 0x61, 0x6D, 0x70, 0x6C, 0x65, 0x2E, 0x63, 0x6F, 0x6D, 0x01, 0xBB]]
   \<and> unat (0x0B :: byte) = length (encode (str ''example.com''))
   \<and> uint (0x01 :: byte) * 256 + uint (0xBB :: byte) = 443"
proof -
  have u: "encode (str ''u'') = [0x75]" and pw: "encode (str ''pw'') = [0x70, 0x77]"
    by (simp_all add: str_def encode_def utf8_def is_high_def is_low_def)
  have h: "encode (str ''example.com'') =
             [0x65, 0x78, 0x61, 0x6D, 0x70, 0x6C, 0x65, 0x2E, 0x63, 0x6F, 0x6D]"
    by (simp add: str_example encode_example)
  show ?thesis
    using socks5_connect_sends_three_packets
            [of "\<lparr>host = str ''proxy'', port = 1080, user = str ''u'', pass = str ''pw''\<rparr>"
                "str ''example.com''" 443 "[0x00, 0x01]" "[]"]
    by (simp add: u pw h)
qed

text \<open>
  Claim C5, as stated, fails: a read takes the chunk the transport delivers, whatever its
  length. Here the greeting is answered by a chunk of 3 bytes and the authentication by one
  of 4 bytes; both are read whole, both pass, and the socket is returned.
\<close>

theorem socks5_connect_read_sizes_counterexample:
  "fst (socks5_connect (Some example_proxy) (str ''example.com'') 443
          [ReadChunk [0x05, 0x02, 0x09], ReadChunk [0x01, 0x00, 0x07, 0x07],
           ReadChunk [0x05, 0x00]])
     = Returned []
   \<and> map (map_option length)
        (received (snd (socks5_connect (Some example_proxy) (str ''example.com'') 443
          [ReadChunk [0x05, 0x02, 0x09], ReadChunk [0x01, 0x00, 0x07, 0x07],
           ReadChunk [0x05, 0x00]])))
     = [Some 3, Some 4, Some 2]"
  by (simp add: socks5_connect_def authentication_def connection_request_def exchange_Cons
        rejected_Some received_def)

text \<open>
  Claim C5, amended. At the greeting and at the authentication step \<^verbatim>\<open>socks5.connect\<close>
  makes one read and takes the whole chunk it delivers; only the first two bytes are
  checked. A chunk of fewer than 2 bytes, or the end of the stream, fails the step (the
  socket is closed and the error of the step is thrown); a chunk that starts with the
  expected two bytes passes, whatever follows them.
\<close>

theorem socks5_connect_reads_whole_chunk:
  "(length c < 2 \<longrightarrow>
      socks5_connect (Some p) th tp (ReadChunk c # rest) =
        (Thrown NegotiationFailed,
         [Connect (host p) (port p), Write greeting, Read (Some c), Close]))
   \<and> socks5_connect (Some p) th tp (ReadDone # rest) =
        (Thrown NegotiationFailed,
         [Connect (host p) (port p), Write greeting, Read None, Close])
   \<and> (length c < 2 \<longrightarrow>
      socks5_connect (Some p) th tp (ReadChunk (0x05 # 0x02 # x1) # ReadChunk c # rest) =
        (Thrown AuthFailed,
         [Connect (host p) (port p), Write greeting, Read (Some (0x05 # 0x02 # x1)),
          Write (authPacket p), Read (Some c), Close]))
   \<and> socks5_connect (Some p) th tp (ReadChunk (0x05 # 0x02 # x1) # ReadDone # rest) =
        (Thrown AuthFailed,
         [Connect (host p) (port p), Write greeting, Read (Some (0x05 # 0x02 # x1)),
          Write (authPacket p), Read None, Close])
   \<and> socks5_connect (Some p) th tp
        (ReadChunk (0x05 # 0x02 # x1) # ReadChunk (0x01 # 0x00 # x2) # rest) =
        connection_request th tp rest
          [Connect (host p) (port p), Write greeting, Read (Some (0x05 # 0x02 # x1)),
           Write (authPacket p), Read (Some (0x01 # 0x00 # x2))]"
  by (simp add: socks5_connect_def authentication_def exchange_Cons rejected_Some rejected_None)

theorem socks5_connect_reads_whole_chunk_witness:
  "length [0x05 :: byte] < 2
   \<and> socks5_connect (Some example_proxy) (str ''example.com'') 443 [ReadChunk [0x05]] =
       (Thrown NegotiationFailed,
        [Connect (host example_proxy) (port example_proxy), Write greeting,
         Read (Some [0x05]), Close])
   \<and> socks5_connect (Some example_proxy) (str ''example.com'') 443
         [ReadChunk [0x05, 0x02, 0x09], ReadChunk [0x05]] =
       (Thrown AuthFailed,
        [Connect (host example_proxy) (port example_proxy), Write greeting,
         Read (Some [0x05, 0x02, 0x09]), Write (authPacket example_proxy),
         Read (Some [0x05]), Close])"
  using socks5_connect_reads_whole_chunk
          [where c = "[0x05]" and p = example_proxy and th = "str ''example.com''"
             and tp = 443 and rest = "[]" and ?x1.0 = "[0x09]" and ?x2.0 = "[]"]
  by simp

section \<open>The request handler\<close>

lemma atob_a_b: "atob (str ''YTpi'') = Some (str ''a:b'')"
  by (simp add: atob_def str_def strip_padding_def is_ascii_whitespace_def base64_value_def)

lemma atob_a_wrong: "atob (str ''YTp3cm9uZw=='') = Some (str ''a:wrong'')"
  by (simp add: atob_def str_def strip_padding_def is_ascii_whitespace_def base64_value_def)

lemma credentials_a_b: "credentials (str ''a:b'') = (Some (str ''a''), Some (str ''b''))"
  by (simp add: credentials_def str_def item_def)

lemma credentials_a_wrong:
  "credentials (str ''a:wrong'') = (Some (str ''a''), Some (str ''wrong''))"
  by (simp add: credentials_def str_def item_def)

lemma users_some_a_b:
  "users_some example_users (Some (str ''a'')) (Some (str ''b'')) = Inr True"
  by (simp add: example_users_def users_some_def entry_matches_def strict_eq_def str_def)

lemma users_some_a_wrong:
  "users_some example_users (Some (str ''a'')) (Some (str ''wrong'')) = Inr False"
  by (simp add: example_users_def users_some_def entry_matches_def strict_eq_def str_def)

lemma basic_header:
  "str ''Basic '' \<noteq> []" "length (str ''Basic '') = 6" "startsWith (t @ s) t"
  by (simp_all add: startsWith_def str_def)

lemma authenticate_a_b:
  "authenticate (example_request m ''YTpi'') (example_env ps) = None"
  by (simp add: authenticate_def example_request_def example_env_def basic_header
        atob_a_b credentials_a_b users_some_a_b)

lemma authenticate_a_wrong:
  "authenticate (example_request m ''YTp3cm9uZw=='') (example_env ps) = Some invalid_credentials"
  by (simp add: authenticate_def example_request_def example_env_def basic_header
        atob_a_wrong credentials_a_wrong users_some_a_wrong)

lemma example_env_simps:
  "USERS_JSON (example_env ps) = Some example_users" "PROXIES_JSON (example_env ps) = Some ps"
  "(example_env ps)\<lparr>PROXIES_JSON := Some qs\<rparr> = example_env qs"
  by (simp_all add: example_env_def)

lemma example_request_simps:
  "method (example_request m c) = str m" "hostname (example_request m c) = str ''example.com''"
  "url_port (example_request m c) = []" "has_body (example_request m c)"
  by (simp_all add: example_request_def)

lemma pick_Nil: "pick [] rnd = None"
  by (simp add: pick_def item_def Let_def)

lemma pick_single: "pick [p] 0 = Some p"
  by (simp add: pick_def item_def Let_def)

lemma parseInt_empty: "parseInt [] = None"
  by (simp add: parseInt_def)

lemma POST_not_CONNECT: "str ''POST'' \<noteq> str ''CONNECT''"
  by (simp add: str_def)

lemma handshake_example:
  "socks5_connect (Some p) th tp
     [ReadChunk [0x05, 0x02], ReadChunk [0x01, 0x00], ReadChunk [0x05, 0x00]] =
   (Returned [],
    [Connect (host p) (port p), Write greeting, Read (Some [0x05, 0x02]),
     Write (authPacket p), Read (Some [0x01, 0x00]),
     Write (connectPacket th tp), Read (Some [0x05, 0x00])])"
  by (simp add: socks5_connect_Returned authentication_Returned connection_request_Returned
        rejected_Some)

lemma connectPacket_example_443:
  "connectPacket (str ''example.com'') 443 =
     [0x05, 0x01, 0x00, 0x03, 0x0B,
      0x65, 0x78, 0x61, 0x6D, 0x70, 0x6C, 0x65, 0x2E, 0x63, 0x6F, 0x6D, 0x01, 0xBB]"
  by (simp add: connectPacket_def str_example encode_example portBytes_443)

text \<open>
  Claim C6 at the empty proxy list, with valid credentials. The handler of index.js picks
  \<^verbatim>\<open>undefined\<close> from the empty array, \<^verbatim>\<open>socks5.connect\<close> throws on \<^verbatim>\<open>proxy.host\<close> before any
  socket is opened, and the answer is 502. The other copy checks the length and answers
  500.
\<close>

theorem fetch_empty_proxy_list:
  "fetch (example_request ''CONNECT'' ''YTpi'') (example_env []) rnd script =
     (Responds (bad_gateway TypeError), [])
   \<and> status (bad_gateway TypeError) = 502
   \<and> fetch (example_request ''POST'' ''YTpi'') (example_env []) rnd script =
     (Responds (bad_gateway TypeError), [])
   \<and> fetch_v1 (example_request ''CONNECT'' ''YTpi'') (example_env []) rnd script =
     (Responds configuration_error, [])
   \<and> status configuration_error = 500"
  by (simp add: fetch_def fetch_v1_def authenticate_a_b chooseProxy_def chooseProxy_v1_def
        example_env_simps pick_Nil socks5_connect_def tunnel_def transport_def bad_gateway_def
        configuration_error_def)

text \<open>
  Claim C7 at credentials that are not in the store (\<^verbatim>\<open>a:wrong\<close>). Both handlers answer
  407 with no header at all, so without the challenge the other 407 of step 1 carries.
\<close>

theorem fetch_invalid_credentials_no_challenge:
  "fetch (example_request m ''YTp3cm9uZw=='') (example_env ps) rnd script =
     (Responds invalid_credentials, [])
   \<and> fetch_v1 (example_request m ''YTp3cm9uZw=='') (example_env ps) rnd script =
     (Responds invalid_credentials, [])
   \<and> status invalid_credentials = 407
   \<and> headers invalid_credentials = []
   \<and> headers challenge = [(''Proxy-Authenticate'', ''Basic realm=\"Secure Proxy Gateway\"'')]"
  by (simp add: fetch_def fetch_v1_def authenticate_a_wrong invalid_credentials_def
        challenge_def)
















text \<open>
  Claim C9, as stated, fails on the copy that has the raw tunnel only: for a POST request
  with no port the connect request it writes ends in 01 BB, port 443, not 80.
\<close>

theorem fetch_v1_default_port_counterexample:
  "method (example_request ''POST'' ''YTpi'') \<noteq> str ''CONNECT''
   \<and> url_port (example_request ''POST'' ''YTpi'') = []
   \<and> sent (snd (fetch_v1 (example_request ''POST'' ''YTpi'') (example_env [example_proxy]) 0
                  [ReadChunk [0x05, 0x02], ReadChunk [0x01, 0x00], ReadChunk [0x05, 0x00]])) ! 2
       = [0x05, 0x01, 0x00, 0x03, 0x0B,
          0x65, 0x78, 0x61, 0x6D, 0x70, 0x6C, 0x65, 0x2E, 0x63, 0x6F, 0x6D, 0x01, 0xBB]"
  by (simp add: fetch_v1_def authenticate_a_b chooseProxy_v1_def example_env_simps pick_single
        example_request_simps parseInt_empty or_default_def handshake_example tunnel_def
        sent_def connectPacket_example_443 POST_not_CONNECT)

lemma portBytes_80: "portBytes 80 = [0x00, 0x50]"
  by (simp add: portBytes_def)

lemma connectPacket_example_80:
  "connectPacket (str ''example.com'') 80 =
     [0x05, 0x01, 0x00, 0x03, 0x0B,
      0x65, 0x78, 0x61, 0x6D, 0x70, 0x6C, 0x65, 0x2E, 0x63, 0x6F, 0x6D, 0x00, 0x50]"
  by (simp add: connectPacket_def str_example encode_example portBytes_80)

text \<open>
  Claim C9, amended. For an authenticated request whose URL gives no port, and a proxy list
  that parses, the handler of index.js calls \<^verbatim>\<open>socks5.connect\<close> with port 443 when the
  method is CONNECT (raw tunnel) and with port 80 for every other method (substituted
  transport). The other copy has the raw tunnel only: with a proxy list that is not empty
  it calls \<^verbatim>\<open>socks5.connect\<close> with port 443 whatever the method.
\<close>

theorem fetch_default_port:
  assumes "url_port request = []" and "authenticate request e = None"
    and "PROXIES_JSON e = Some proxies"
  shows "fetch request e rnd script =
           (if method request = str ''CONNECT''
            then tunnel request (socks5_connect (pick proxies rnd) (hostname request) 443 script)
            else transport (socks5_connect (pick proxies rnd) (hostname request) 80 script))
         \<and> (proxies \<noteq> [] \<longrightarrow>
              fetch_v1 request e rnd script =
                tunnel request (socks5_connect (pick proxies rnd) (hostname request) 443 script))"
  using assms
  by (simp add: fetch_def fetch_v1_def chooseProxy_def chooseProxy_v1_def parseInt_empty
        or_default_def)

theorem fetch_default_port_witness:
  "url_port (example_request ''CONNECT'' ''YTpi'') = []
   \<and> url_port (example_request ''POST'' ''YTpi'') = []
   \<and> authenticate (example_request ''CONNECT'' ''YTpi'') (example_env [example_proxy]) = None
   \<and> authenticate (example_request ''POST'' ''YTpi'') (example_env [example_proxy]) = None
   \<and> PROXIES_JSON (example_env [example_proxy]) = Some [example_proxy]
   \<and> method (example_request ''POST'' ''YTpi'') \<noteq> str ''CONNECT''
   \<and> sent (snd (fetch (example_request ''CONNECT'' ''YTpi'') (example_env [example_proxy]) 0
                  [ReadChunk [0x05, 0x02], ReadChunk [0x01, 0x00], ReadChunk [0x05, 0x00]])) ! 2
       = [0x05, 0x01, 0x00, 0x03, 0x0B,
          0x65, 0x78, 0x61, 0x6D, 0x70, 0x6C, 0x65, 0x2E, 0x63, 0x6F, 0x6D, 0x01, 0xBB]
   \<and> sent (snd (fetch (example_request ''POST'' ''YTpi'') (example_env [example_proxy]) 0
                  [ReadChunk [0x05, 0x02], ReadChunk [0x01, 0x00], ReadChunk [0x05, 0x00]])) ! 2
       = [0x05, 0x01, 0x00, 0x03, 0x0B,
          0x65, 0x78, 0x61, 0x6D, 0x70, 0x6C, 0x65, 0x2E, 0x63, 0x6F, 0x6D, 0x00, 0x50]
   \<and> sent (snd (fetch_v1 (example_request ''POST'' ''YTpi'') (example_env [example_proxy]) 0
                  [ReadChunk [0x05, 0x02], ReadChunk [0x01, 0x00], ReadChunk [0x05, 0x00]])) ! 2
       = [0x05, 0x01, 0x00, 0x03, 0x0B,
          0x65, 0x78, 0x61, 0x6D, 0x70, 0x6C, 0x65, 0x2E, 0x63, 0x6F, 0x6D, 0x01, 0xBB]"
  using fetch_default_port
          [of "example_request ''CONNECT'' ''YTpi''" "example_env [example_proxy]"
              "[example_proxy]" 0
              "[ReadChunk [0x05, 0x02], ReadChunk [0x01, 0x00], ReadChunk [0x05, 0x00]]"]
        fetch_default_port
          [of "example_request ''POST'' ''YTpi''" "example_env [example_proxy]"
              "[example_proxy]" 0
              "[ReadChunk [0x05, 0x02], ReadChunk [0x01, 0x00], ReadChunk [0x05, 0x00]]"]
  by (simp add: example_request_simps example_env_simps authenticate_a_b pick_single
        POST_not_CONNECT handshake_example tunnel_def transport_def sent_def
        connectPacket_example_443 connectPacket_example_80)

lemma split_segments: "seg \<in> set (split s sep) \<Longrightarrow> sep \<notin> set seg"
  by (induction s arbitrary: seg) (auto split: if_splits list.splits)

lemma split_first: "sep \<notin> set u \<Longrightarrow> split (u @ sep # rest) sep = u # split rest sep"
  by (induction u) auto

lemma split_not_Nil: "split s sep \<noteq> []"
  by (induction s) (auto split: list.splits)

lemma credentials_no_colon:
  "snd (credentials d) = Some q \<Longrightarrow> 0x3A \<notin> set q"
  using split_segments [of "split d 0x3A ! 1" d "0x3A"]
  by (auto simp: credentials_def item_def Let_def split: if_splits)

lemma some_True:
  "some entries u p = Inr True \<Longrightarrow> \<exists>entry\<in>set entries. entry_matches entry u p = Inr True"
  by (induction entries) (auto split: sum.splits bool.splits)

lemma entry_matches_True:
  "entry_matches entry u p = Inr True \<Longrightarrow>
     \<exists>w. get_prop entry (str ''pass'') = Inr w \<and> strict_eq w p"
  by (auto simp: entry_matches_def split: sum.splits if_splits)

lemma colon_password:
  assumes "get_prop entry (str ''pass'') = Inr (Some (JStr stored))" and "0x3A \<in> set stored"
  shows "entry_matches entry (fst (credentials d)) (snd (credentials d)) \<noteq> Inr True"
proof
  assume "entry_matches entry (fst (credentials d)) (snd (credentials d)) = Inr True"
  then have "strict_eq (Some (JStr stored)) (snd (credentials d))"
    using assms(1) by (auto dest: entry_matches_True)
  then have "snd (credentials d) = Some stored"
    by (auto simp: strict_eq_def split: option.splits)
  then show False
    using credentials_no_colon assms(2) by blast
qed

text \<open>
  Claim C10. The decoded credentials are split at every colon and only the first two
  segments are used: for a decoded string with more than one colon the password compared
  is the text between the first and the second colon. A stored password that contains a
  colon is therefore never matched by any decoded string, and a store whose passwords all
  contain a colon authenticates no request.
\<close>

theorem colon_password_never_authenticates:
  "(0x3A \<notin> set u \<and> 0x3A \<notin> set q \<longrightarrow>
      credentials (u @ [0x3A] @ q @ [0x3A] @ rest) = (Some u, Some q))
   \<and> (get_prop entry (str ''pass'') = Inr (Some (JStr stored)) \<and> 0x3A \<in> set stored \<longrightarrow>
      entry_matches entry (fst (credentials d)) (snd (credentials d)) \<noteq> Inr True)
   \<and> (USERS_JSON e = Some (JArr entries) \<and>
      (\<forall>entry\<in>set entries. \<exists>stored.
          get_prop entry (str ''pass'') = Inr (Some (JStr stored)) \<and> 0x3A \<in> set stored) \<longrightarrow>
      authenticate request e \<noteq> None)"
proof (intro conjI impI)
  assume "0x3A \<notin> set u \<and> 0x3A \<notin> set q"
  then have "split (u @ [0x3A] @ q @ [0x3A] @ rest) 0x3A = u # q # split rest 0x3A"
    by (simp add: split_first)
  then show "credentials (u @ [0x3A] @ q @ [0x3A] @ rest) = (Some u, Some q)"
    by (simp add: credentials_def item_def)
next
  assume "get_prop entry (str ''pass'') = Inr (Some (JStr stored)) \<and> 0x3A \<in> set stored"
  then show "entry_matches entry (fst (credentials d)) (snd (credentials d)) \<noteq> Inr True"
    using colon_password by blast
next
  assume a: "USERS_JSON e = Some (JArr entries) \<and>
      (\<forall>entry\<in>set entries. \<exists>stored.
          get_prop entry (str ''pass'') = Inr (Some (JStr stored)) \<and> 0x3A \<in> set stored)"
  have "some entries (fst (credentials d)) (snd (credentials d)) \<noteq> Inr True" for d
    using a colon_password by (blast dest: some_True)
  then show "authenticate request e \<noteq> None"
    using a
    by (auto simp: authenticate_def users_some_def split: option.splits sum.splits bool.splits)
qed

theorem colon_password_never_authenticates_witness:
  "credentials (str ''a:b:c'') = (Some (str ''a''), Some (str ''b''))
   \<and> entry_matches (JObj [(str ''user'', JStr (str ''a'')), (str ''pass'', JStr (str ''b:c''))])
         (fst (credentials (str ''a:b:c''))) (snd (credentials (str ''a:b:c''))) \<noteq> Inr True
   \<and> authenticate (example_request ''CONNECT'' ''YTpiOmM='')
         \<lparr>USERS_JSON = Some (JArr [JObj [(str ''user'', JStr (str ''a'')),
                                         (str ''pass'', JStr (str ''b:c''))]]),
          PROXIES_JSON = Some [example_proxy]\<rparr> \<noteq> None"
proof -
  let ?entry = "JObj [(str ''user'', JStr (str ''a'')), (str ''pass'', JStr (str ''b:c''))]"
  let ?e = "\<lparr>USERS_JSON = Some (JArr [?entry]), PROXIES_JSON = Some [example_proxy]\<rparr>"
  note claim = colon_password_never_authenticates
          [where u = "str ''a''" and q = "str ''b''" and rest = "str ''c''"
             and entry = ?entry and stored = "str ''b:c''" and d = "str ''a:b:c''"
             and e = ?e and entries = "[?entry]"
             and request = "example_request ''CONNECT'' ''YTpiOmM=''"]
  have decoded: "str ''a'' @ [0x3A] @ str ''b'' @ [0x3A] @ str ''c'' = str ''a:b:c''"
    by (simp add: str_def)
  have segments: "0x3A \<notin> set (str ''a'') \<and> 0x3A \<notin> set (str ''b'')"
    by (simp add: str_def)
  have stored: "get_prop ?entry (str ''pass'') = Inr (Some (JStr (str ''b:c'')))
                \<and> 0x3A \<in> set (str ''b:c'')"
    by (simp add: str_def)
  have store: "USERS_JSON ?e = Some (JArr [?entry]) \<and>
               (\<forall>entry\<in>set [?entry]. \<exists>stored.
                  get_prop entry (str ''pass'') = Inr (Some (JStr stored)) \<and> 0x3A \<in> set stored)"
    using stored by simp
  have 1: "credentials (str ''a:b:c'') = (Some (str ''a''), Some (str ''b''))"
    using claim segments unfolding decoded by blast
  have 2: "entry_matches ?entry (fst (credentials (str ''a:b:c'')))
             (snd (credentials (str ''a:b:c''))) \<noteq> Inr True"
    using claim stored by blast
  have 3: "authenticate (example_request ''CONNECT'' ''YTpiOmM='') ?e \<noteq> None"
    using claim store by blast
  from 1 2 3 show ?thesis by blast
qed

end
